theory Spec2Isabelle
  imports Main
begin

section \<open>Attendance logic of Madina-Attend (lib/attendanceLogic.ts)\<close>

text \<open>
  The module decides whether a student may check in at a given instant (\<open>validateLogin\<close>),
  whether the check-in is late (\<open>calculateLateStatus\<close>), and in which week of the term a
  date lies (\<open>calculateWeekNumber\<close>, \<open>getWeekDateRange\<close>). The embedding follows the
  final revision of the file, function by function and under the source's names.
\<close>

subsection \<open>JavaScript numbers\<close>

text \<open>
  Every number the module computes is an integer or \<open>NaN\<close> (the fields of an invalid
  \<open>Date\<close>). Arithmetic propagates \<open>NaN\<close>; a comparison with \<open>NaN\<close> is false.
\<close>

datatype number = NaN | Num int

fun num_add :: "number \<Rightarrow> number \<Rightarrow> number" where
  "num_add (Num a) (Num b) = Num (a + b)"
| "num_add _ _ = NaN"

fun num_sub :: "number \<Rightarrow> number \<Rightarrow> number" where
  "num_sub (Num a) (Num b) = Num (a - b)"
| "num_sub _ _ = NaN"

fun num_mul :: "number \<Rightarrow> number \<Rightarrow> number" where
  "num_mul (Num a) (Num b) = Num (a * b)"
| "num_mul _ _ = NaN"

fun num_lt :: "number \<Rightarrow> number \<Rightarrow> bool" where
  "num_lt (Num a) (Num b) = (a < b)"
| "num_lt _ _ = False"

fun num_gt :: "number \<Rightarrow> number \<Rightarrow> bool" where
  "num_gt (Num a) (Num b) = (a > b)"
| "num_gt _ _ = False"

fun num_ge :: "number \<Rightarrow> number \<Rightarrow> bool" where
  "num_ge (Num a) (Num b) = (a \<ge> b)"
| "num_ge _ _ = False"

text \<open>\<open>Math.floor(a / k)\<close> for a positive integer constant \<open>k\<close>.\<close>

fun Math_floor_div :: "number \<Rightarrow> int \<Rightarrow> number" where
  "Math_floor_div (Num a) k = Num (a div k)"
| "Math_floor_div NaN k = NaN"

text \<open>\<open>a % k\<close>: the remainder takes the sign of the dividend.\<close>

fun num_rem :: "number \<Rightarrow> int \<Rightarrow> number" where
  "num_rem (Num a) k = Num (sgn a * (\<bar>a\<bar> mod \<bar>k\<bar>))"
| "num_rem NaN k = NaN"

subsection \<open>Strings\<close>

definition isDigit :: "char \<Rightarrow> bool" where
  "isDigit c = (c \<in> set ''0123456789'')"

text \<open>The value of a digit: its place among the ten digits.\<close>

definition digitVal :: "char \<Rightarrow> int" where
  "digitVal c = int (length (takeWhile (\<lambda>d. d \<noteq> c) ''0123456789''))"

definition digitChar :: "int \<Rightarrow> char" where
  "digitChar d = ''0123456789'' ! nat d"

text \<open>The value of a string of decimal digits, most significant digit first.\<close>

definition decimalVal :: "string \<Rightarrow> int" where
  "decimalVal s = foldl (\<lambda>n c. 10 * n + digitVal c) 0 s"

text \<open>
  \<open>Number(s)\<close> on the strings the module applies it to: the empty string is 0, a run of
  decimal digits is its value, and any other text is \<open>NaN\<close>. (Signs, fractions, exponents
  and surrounding blanks, which \<open>Number\<close> also reads, do not occur in an \<open>HH:MM\<close> time.)
\<close>

definition Number :: "string \<Rightarrow> number" where
  "Number s = (if list_all isDigit s then Num (decimalVal s) else NaN)"

text \<open>\<open>parseInt(s)\<close>: the longest prefix of decimal digits, \<open>NaN\<close> when there is none.\<close>

definition parseInt :: "string \<Rightarrow> number" where
  "parseInt s = (case takeWhile isDigit s of [] \<Rightarrow> NaN | ds \<Rightarrow> Num (decimalVal ds))"

text \<open>A number inside a template literal.\<close>

fun natToString :: "nat \<Rightarrow> string" where
  "natToString n =
     (if n < 10 then [digitChar (int n)]
      else natToString (n div 10) @ [digitChar (int (n mod 10))])"

declare natToString.simps [simp del]

fun numToString :: "number \<Rightarrow> string" where
  "numToString NaN = ''NaN''"
| "numToString (Num a) = (if a < 0 then ''-'' @ natToString (nat (- a)) else natToString (nat a))"

text \<open>
  \<open>s.split(sep)\<close> for a non-empty separator: the pieces of \<open>s\<close> between the occurrences
  of \<open>sep\<close>, scanned from the left. \<open>cur\<close> is the piece being read.
\<close>

function split_from :: "string \<Rightarrow> string \<Rightarrow> string \<Rightarrow> string list" where
  "split_from sep cur [] = [cur]"
| "split_from sep cur (c # cs) =
     (if sep \<noteq> [] \<and> take (length sep) (c # cs) = sep
      then cur # split_from sep [] (drop (length sep) (c # cs))
      else split_from sep (cur @ [c]) cs)"
  by pat_completeness auto
termination
  by (relation "measure (\<lambda>(sep, cur, s). length s)") auto

definition split :: "string \<Rightarrow> string \<Rightarrow> string list" where
  "split sep s = split_from sep [] s"

text \<open>
  Array destructuring \<open>const [a, b, c] = xs\<close> reads \<open>xs[0]\<close>, \<open>xs[1]\<close>, \<open>xs[2]\<close>; a missing
  element is \<open>undefined\<close>, here \<open>None\<close>.
\<close>

definition element :: "'a list \<Rightarrow> nat \<Rightarrow> 'a option" where
  "element xs i = (if i < length xs then Some (xs ! i) else None)"

definition padStart :: "string \<Rightarrow> nat \<Rightarrow> char \<Rightarrow> string" where
  "padStart s n c = replicate (n - length s) c @ s"

text \<open>A possibly undefined string inside a template literal.\<close>

definition templ :: "string option \<Rightarrow> string" where
  "templ x = (case x of None \<Rightarrow> ''undefined'' | Some s \<Rightarrow> s)"

subsection \<open>Dates\<close>

text \<open>
  A \<open>Date\<close> object holds a time value: the milliseconds since 1970-01-01T00:00:00Z, or
  \<open>NaN\<close> for an invalid date. The functions below are those of ECMA-262 (section
  \<^emph>\<open>Date Objects\<close>), under its names. A time value lies within \<open>10\<^sup>8\<close> days of
  1970; \<open>TimeClip\<close> turns any other into \<open>NaN\<close>.
\<close>

type_synonym Date = number

definition msPerDay :: int where "msPerDay = 86400000"
definition msPerHour :: int where "msPerHour = 3600000"
definition msPerMinute :: int where "msPerMinute = 60000"
definition msPerSecond :: int where "msPerSecond = 1000"


definition Day :: "int \<Rightarrow> int" where
  "Day t = t div msPerDay"


definition WeekDay :: "int \<Rightarrow> int" where
  "WeekDay t = (Day t + 4) mod 7"

definition HourFromTime :: "int \<Rightarrow> int" where
  "HourFromTime t = (t div msPerHour) mod 24"

definition MinFromTime :: "int \<Rightarrow> int" where
  "MinFromTime t = (t div msPerMinute) mod 60"

definition DayFromYear :: "int \<Rightarrow> int" where
  "DayFromYear y =
     365 * (y - 1970) + (y - 1969) div 4 - (y - 1901) div 100 + (y - 1601) div 400"

definition InLeapYear :: "int \<Rightarrow> bool" where
  "InLeapYear y = (y mod 4 = 0 \<and> (y mod 100 \<noteq> 0 \<or> y mod 400 = 0))"

text \<open>The day of the year on which month \<open>m\<close> (0 for January) begins.\<close>

definition monthStart :: "int \<Rightarrow> int \<Rightarrow> int" where
  "monthStart y m =
     [0, 31, 59, 90, 120, 151, 181, 212, 243, 273, 304, 334] ! nat m
       + (if InLeapYear y \<and> 2 \<le> m then 1 else 0)"

definition MakeDay :: "int \<Rightarrow> int \<Rightarrow> int \<Rightarrow> int" where
  "MakeDay y m dt = DayFromYear y + monthStart y m + dt - 1"

definition MakeTime :: "int \<Rightarrow> int \<Rightarrow> int \<Rightarrow> int \<Rightarrow> int" where
  "MakeTime hour mn sec ms = hour * msPerHour + mn * msPerMinute + sec * msPerSecond + ms"

definition MakeDate :: "int \<Rightarrow> int \<Rightarrow> int" where
  "MakeDate day time = day * msPerDay + time"

text \<open>
  The host running the module: its local time zone, whether it is the server, and the
  rendering of \<open>Intl\<close>. The zone has a standard offset from UTC in milliseconds (0 on a
  host that runs in UTC) and a list of daylight-saving periods, each given by the day it
  begins and the day it ends (days from 1970-01-01). A period follows the rule of the
  United States: the clock goes from 02:00 to 03:00 on the first day and from 02:00 back
  to 01:00 on the last, and stays one hour ahead in between. A host without daylight
  saving has the empty list. \<open>toLocaleString\<close> is the call
  \<open>now.toLocaleString("en-US", {timeZone: "America/New_York", ..., hour12: false})\<close> of
  \<open>getEasternTime\<close> on a valid date; the zone rules behind it belong to the runtime.
\<close>

record host =
  standardOffset :: int
  daylight :: "(int \<times> int) list"
  isServer :: bool
  toLocaleString :: "int \<Rightarrow> string"

text \<open>
  \<open>LocalTZA(t, isUTC)\<close>: the offset of the host's zone at the instant \<open>t\<close>, or, when
  \<open>isUTC\<close> is false, at the local time \<open>t\<close>. A local time that the clock skips or shows
  twice is read with the offset in force before the transition.
\<close>

definition LocalTZA :: "host \<Rightarrow> int \<Rightarrow> bool \<Rightarrow> int" where
  "LocalTZA h t isUTC =
     (let saving =
        (if isUTC
         then list_ex (\<lambda>(a, b). a * msPerDay + 2 * msPerHour \<le> t + standardOffset h
                              \<and> t + standardOffset h < b * msPerDay + msPerHour) (daylight h)
         else list_ex (\<lambda>(a, b). a * msPerDay + 3 * msPerHour \<le> t
                              \<and> t < b * msPerDay + 2 * msPerHour) (daylight h))
      in standardOffset h + (if saving then msPerHour else 0))"

definition LocalTime :: "host \<Rightarrow> int \<Rightarrow> int" where
  "LocalTime h t = t + LocalTZA h t True"

definition UTC :: "host \<Rightarrow> int \<Rightarrow> int" where
  "UTC h t = t - LocalTZA h t False"

fun getDay :: "host \<Rightarrow> Date \<Rightarrow> number" where
  "getDay h (Num t) = Num (WeekDay (LocalTime h t))"
| "getDay h NaN = NaN"

fun getHours :: "host \<Rightarrow> Date \<Rightarrow> number" where
  "getHours h (Num t) = Num (HourFromTime (LocalTime h t))"
| "getHours h NaN = NaN"

fun getMinutes :: "host \<Rightarrow> Date \<Rightarrow> number" where
  "getMinutes h (Num t) = Num (MinFromTime (LocalTime h t))"
| "getMinutes h NaN = NaN"

text \<open>
  \<open>new Date(s)\<close> for a string of the form \<open>YYYY-MM-DDTHH:mm:ss\<close>, which ECMA-262 reads
  as local time (hour 24 is accepted for the midnight that ends the day). Any other
  string gives an invalid date here; what a runtime makes of one is left to it by the
  standard, and \<open>getEasternTime\<close> builds no other shape from a rendering
  \<open>MM/DD/YYYY, HH:mm:ss\<close>.
\<close>

definition isDigits :: "nat \<Rightarrow> string \<Rightarrow> bool" where
  "isDigits n s = (length s = n \<and> list_all isDigit s)"

definition dateFields :: "host \<Rightarrow> string \<Rightarrow> string \<Rightarrow> string \<Rightarrow> string \<Rightarrow> string \<Rightarrow> string \<Rightarrow> Date" where
  "dateFields h yy mo dd hh mi ss =
     (if isDigits 4 yy \<and> isDigits 2 mo \<and> isDigits 2 dd
         \<and> isDigits 2 hh \<and> isDigits 2 mi \<and> isDigits 2 ss
      then
        let y = decimalVal yy; m = decimalVal mo; d = decimalVal dd;
            hour = decimalVal hh; mn = decimalVal mi; sec = decimalVal ss
        in if 1 \<le> m \<and> m \<le> 12 \<and> 1 \<le> d \<and> d \<le> 31
              \<and> mn \<le> 59 \<and> sec \<le> 59 \<and> (hour \<le> 23 \<or> hour = 24 \<and> mn = 0 \<and> sec = 0)
           then Num (UTC h (MakeDate (MakeDay y (m - 1) d) (MakeTime hour mn sec 0)))
           else NaN
      else NaN)"

definition newDate :: "host \<Rightarrow> string \<Rightarrow> Date" where
  "newDate h s =
     (case split ''T'' s of
        [d, t] \<Rightarrow>
          (case split ''-'' d of
             [yy, mo, dd] \<Rightarrow>
               (case split '':'' t of
                  [hh, mi, ss] \<Rightarrow> dateFields h yy mo dd hh mi ss
                | _ \<Rightarrow> NaN)
           | _ \<Rightarrow> NaN)
      | _ \<Rightarrow> NaN)"

subsection \<open>getEasternTime\<close>

datatype error = TypeError | RangeError

text \<open>
  The instant is always passed in (\<open>date || new Date()\<close> reads the clock only when it is
  omitted). An invalid date renders as the text \<open>Invalid Date\<close>, and on the server the
  debug line calls \<open>now.toISOString()\<close>, which throws \<open>RangeError\<close> on it. The method
  calls \<open>timePart.split\<close>, \<open>month.padStart\<close>, ... throw \<open>TypeError\<close> on \<open>undefined\<close>; the
  year is only interpolated.
\<close>

definition getEasternTime :: "host \<Rightarrow> Date \<Rightarrow> error + Date" where
  "getEasternTime h now =
     (let easternTimeString = (case now of NaN \<Rightarrow> ''Invalid Date'' | Num t \<Rightarrow> toLocaleString h t)
      in if isServer h \<and> now = NaN then Inl RangeError
         else
           let parts = split '', '' easternTimeString;
               datePart = element parts 0;
               timePart = element parts 1
           in case (datePart, timePart) of
                (Some dp, Some tp) \<Rightarrow>
                  (let month = element (split ''/'' dp) 0;
                       day = element (split ''/'' dp) 1;
                       year = element (split ''/'' dp) 2;
                       hour = element (split '':'' tp) 0;
                       minute = element (split '':'' tp) 1;
                       second = element (split '':'' tp) 2
                   in case (month, day, hour, minute, second) of
                        (Some mo, Some dd, Some hh, Some mi, Some ss) \<Rightarrow>
                          Inr (newDate h (templ year @ ''-'' @ padStart mo 2 CHR ''0'' @ ''-''
                                 @ padStart dd 2 CHR ''0'' @ ''T'' @ padStart hh 2 CHR ''0'' @ '':''
                                 @ padStart mi 2 CHR ''0'' @ '':'' @ padStart ss 2 CHR ''0''))
                      | _ \<Rightarrow> Inl TypeError)
              | _ \<Rightarrow> Inl TypeError)"

subsection \<open>Class schedules\<close>

datatype DayType = weekend | weekday

text \<open>\<open>ClassType = "weekend" | "weekday" | "both"\<close>: a day type, or both.\<close>

datatype ClassType = only DayType | both

definition dayTypeName :: "DayType \<Rightarrow> string" where
  "dayTypeName d = (case d of weekend \<Rightarrow> ''weekend'' | weekday \<Rightarrow> ''weekday'')"

definition classTypeName :: "ClassType \<Rightarrow> string" where
  "classTypeName c = (case c of only d \<Rightarrow> dayTypeName d | both \<Rightarrow> ''both'')"

record ClassSchedule =
  start :: string
  end' :: string
  lateThresholdMinutes :: int
  earlyLoginMinutes :: int

definition CLASS_SCHEDULES :: "DayType \<Rightarrow> ClassSchedule" where
  "CLASS_SCHEDULES d =
     (case d of
        weekend \<Rightarrow> \<lparr>start = ''12:00'', end' = ''13:30'',
                     lateThresholdMinutes = 15, earlyLoginMinutes = 60\<rparr>
      | weekday \<Rightarrow> \<lparr>start = ''17:30'', end' = ''19:30'',
                     lateThresholdMinutes = 15, earlyLoginMinutes = 60\<rparr>)"

text \<open>\<open>undefined\<close> in arithmetic is \<open>NaN\<close>.\<close>

definition toNumber :: "number option \<Rightarrow> number" where
  "toNumber x = (case x of None \<Rightarrow> NaN | Some n \<Rightarrow> n)"

definition timeToMinutes :: "string \<Rightarrow> number" where
  "timeToMinutes timeStr =
     (let parts = map Number (split '':'' timeStr);
          hours = toNumber (element parts 0);
          minutes = toNumber (element parts 1)
      in num_add (num_mul hours (Num 60)) minutes)"

definition dateToMinutes :: "host \<Rightarrow> Date \<Rightarrow> number" where
  "dateToMinutes h date = num_add (num_mul (getHours h date) (Num 60)) (getMinutes h date)"

definition canAttendClass :: "ClassType \<Rightarrow> DayType \<Rightarrow> bool" where
  "canAttendClass studentClassType sessionClassType =
     (if studentClassType = both then True
      else studentClassType = only sessionClassType)"

subsection \<open>validateLogin\<close>

datatype Status = on_time | late

record LoginValidationResult =
  allowed :: bool
  reason :: "string option"
  status :: "Status option"
  dayType :: DayType
  minutesLate :: "number option"
  easternTime :: Date

definition dayNames :: "string list" where
  "dayNames = [''Sunday'', ''Monday'', ''Tuesday'', ''Wednesday'', ''Thursday'', ''Friday'',
               ''Saturday'']"

text \<open>\<open>xs[i]\<close> for a number \<open>i\<close>: \<open>undefined\<close> outside the array and at \<open>NaN\<close>.\<close>

definition index :: "'a list \<Rightarrow> number \<Rightarrow> 'a option" where
  "index xs i =
     (case i of NaN \<Rightarrow> None
      | Num k \<Rightarrow> if 0 \<le> k \<and> k < int (length xs) then Some (xs ! nat k) else None)"

text \<open>The three messages of a rejection, as the source writes them.\<close>

definition wrongDayReason :: "ClassType \<Rightarrow> string option \<Rightarrow> DayType \<Rightarrow> string" where
  "wrongDayReason studentClassType dayName currentDayType =
     (if studentClassType = only weekend then
        ''You are registered for WEEKEND classes only (Saturday & Sunday, 12:00 PM - 1:30 PM). Today is ''
          @ templ dayName @ '', a weekday. Please come back on the weekend.''
      else if studentClassType = only weekday then
        ''You are registered for WEEKDAY classes only (Monday-Friday, 5:30 PM - 7:30 PM). Today is ''
          @ templ dayName @ '', a weekend day. Please come back on a weekday.''
      else
        ''You are registered for '' @ classTypeName studentClassType
          @ '' classes. Today is a '' @ dayTypeName currentDayType @ '' class day.'')"

definition tooEarlyReason :: "string \<Rightarrow> string \<Rightarrow> string" where
  "tooEarlyReason displayTime timeMessage =
     ''Login opens 1 hour before class starts at '' @ displayTime
       @ ''. Please try again in '' @ timeMessage @ ''.''"

definition classEndedReason :: string where
  "classEndedReason = ''Class has already ended. Login is not allowed after class end time.''"

definition plural :: "number \<Rightarrow> string" where
  "plural n = (if num_gt n (Num 1) then ''s'' else [])"

text \<open>The 12-hour display of the class start, \<open>displayTime\<close> in the source.\<close>

definition displayTimeOf :: "string \<Rightarrow> string" where
  "displayTimeOf classStartTime =
     (let startHour = element (split '':'' classStartTime) 0;
          startMin = element (split '':'' classStartTime) 1;
          startHourNum = parseInt (templ startHour)
      in if num_ge startHourNum (Num 12)
         then numToString (if startHourNum = Num 12 then Num 12 else num_sub startHourNum (Num 12))
                @ '':'' @ templ startMin @ '' PM''
         else numToString (if startHourNum = Num 0 then Num 12 else startHourNum)
                @ '':'' @ templ startMin @ '' AM'')"

text \<open>The wait until login opens, \<open>timeMessage\<close> in the source.\<close>

definition timeMessageOf :: "number \<Rightarrow> string" where
  "timeMessageOf minutesUntilEarlyLogin =
     (let hours = Math_floor_div minutesUntilEarlyLogin 60;
          minutes = num_rem minutesUntilEarlyLogin 60
      in if num_gt hours (Num 0) \<and> num_gt minutes (Num 0)
         then numToString hours @ '' hour'' @ plural hours @ '' and ''
                @ numToString minutes @ '' minute'' @ plural minutes
         else if num_gt hours (Num 0)
         then numToString hours @ '' hour'' @ plural hours
         else numToString minutes @ '' minute'' @ plural minutes)"

definition validateLogin :: "host \<Rightarrow> ClassType \<Rightarrow> Date \<Rightarrow> error + LoginValidationResult" where
  "validateLogin h studentClassType loginTime =
     (case getEasternTime h loginTime of
        Inl e \<Rightarrow> Inl e
      | Inr et \<Rightarrow>
          let easternTime = et;
              dayOfWeek = getDay h easternTime;
              isWeekend = (dayOfWeek = Num 0 \<or> dayOfWeek = Num 6);
              currentDayType = (if isWeekend then weekend else weekday);
              dayName = index dayNames dayOfWeek;
              canAttend = canAttendClass studentClassType currentDayType
          in if \<not> canAttend then
               Inr \<lparr>allowed = False,
                    reason = Some (wrongDayReason studentClassType dayName currentDayType),
                    status = None, dayType = currentDayType, minutesLate = None,
                    easternTime = easternTime\<rparr>
             else
               let schedule = CLASS_SCHEDULES currentDayType;
                   currentMinutes = dateToMinutes h easternTime;
                   classStartMinutes = timeToMinutes (start schedule);
                   classEndMinutes = timeToMinutes (end' schedule);
                   earlyLoginMinutes = num_sub classStartMinutes (Num (earlyLoginMinutes schedule));
                   lateThresholdMinutes =
                     num_add classStartMinutes (Num (lateThresholdMinutes schedule));
                   displayTime = displayTimeOf (start schedule)
               in if num_lt currentMinutes earlyLoginMinutes then
                    let minutesUntilEarlyLogin = num_sub earlyLoginMinutes currentMinutes
                    in Inr \<lparr>allowed = False,
                            reason = Some (tooEarlyReason displayTime
                                             (timeMessageOf minutesUntilEarlyLogin)),
                            status = None, dayType = currentDayType, minutesLate = None,
                            easternTime = easternTime\<rparr>
                  else if num_gt currentMinutes classEndMinutes then
                    Inr \<lparr>allowed = False, reason = Some classEndedReason,
                         status = None, dayType = currentDayType, minutesLate = None,
                         easternTime = easternTime\<rparr>
                  else if num_gt currentMinutes lateThresholdMinutes then
                    let minutesLate = num_sub currentMinutes classStartMinutes
                    in Inr \<lparr>allowed = True, reason = None, status = Some late,
                            dayType = currentDayType, minutesLate = Some minutesLate,
                            easternTime = easternTime\<rparr>
                  else
                    Inr \<lparr>allowed = True, reason = None, status = Some on_time,
                         dayType = currentDayType, minutesLate = Some (Num 0),
                         easternTime = easternTime\<rparr>)"

subsection \<open>calculateLateStatus\<close>

record LateStatus =
  isLate :: bool
  lateMinutes :: "number option"

definition calculateLateStatus :: "host \<Rightarrow> Date \<Rightarrow> DayType \<Rightarrow> error + LateStatus" where
  "calculateLateStatus h checkInTime classType =
     (let schedule = CLASS_SCHEDULES classType
      in case getEasternTime h checkInTime of
           Inl e \<Rightarrow> Inl e
         | Inr et \<Rightarrow>
             let easternTime = et;
                 checkInMinutes = dateToMinutes h easternTime;
                 startMinutes = timeToMinutes (start schedule);
                 lateThresholdMinutes =
                   num_add startMinutes (Num (lateThresholdMinutes schedule))
             in if num_gt checkInMinutes lateThresholdMinutes then
                  let lateBy = num_sub checkInMinutes startMinutes
                  in Inr \<lparr>isLate = True, lateMinutes = Some lateBy\<rparr>
                else Inr \<lparr>isLate = False, lateMinutes = None\<rparr>)"

subsection \<open>determineClassType\<close>

definition determineClassType :: "host \<Rightarrow> Date \<Rightarrow> error + DayType" where
  "determineClassType h date =
     (case getEasternTime h date of
        Inl e \<Rightarrow> Inl e
      | Inr easternDate \<Rightarrow>
          let dayOfWeek = getDay h easternDate;
              isWeekend = (dayOfWeek = Num 0 \<or> dayOfWeek = Num 6)
          in Inr (if isWeekend then weekend else weekday))"

subsection \<open>Week numbers\<close>

text \<open>
  A date-only string \<open>YYYY-MM-DD\<close> (the argument \<open>systemStartDate\<close>, and the two dates
  \<open>getWeekDateRange\<close> returns) is identified with the calendar day it names, counted in
  days from 1970-01-01. \<open>new Date(s)\<close> of such a string is the UTC midnight of that day;
  \<open>date.toISOString().split("T")[0]\<close> names the UTC day of the time value, and
  \<open>toISOString\<close> throws \<open>RangeError\<close> on an invalid date.
\<close>

type_synonym isodate = int

definition newDateOnly :: "isodate \<Rightarrow> Date" where
  "newDateOnly s = Num (MakeDate s 0)"


text \<open>
  \<open>d.setHours(0, 0, 0, 0)\<close>: the local midnight of the local day of \<open>d\<close>. It lies less
  than a day and an hour before \<open>d\<close>, and its \<open>TimeClip\<close>, which can matter only that
  close to the lower end of the range, is left out.
\<close>

fun setHours0 :: "host \<Rightarrow> Date \<Rightarrow> Date" where
  "setHours0 h (Num t) = Num (UTC h (MakeDate (Day (LocalTime h t)) (MakeTime 0 0 0 0)))"
| "setHours0 h NaN = NaN"


definition calculateWeekNumber :: "host \<Rightarrow> Date \<Rightarrow> isodate \<Rightarrow> number" where
  "calculateWeekNumber h date systemStartDate =
     (let startDate = setHours0 h (newDateOnly systemStartDate);
          currentDate = setHours0 h date;
          diffMs = num_sub currentDate startDate;
          diffDays = Math_floor_div diffMs (1000 * 60 * 60 * 24);
          weekNumber = num_add (Math_floor_div diffDays 7) (Num 1)
      in if num_gt weekNumber (Num 0) then weekNumber else Num 1)"

record WeekDateRange =
  startDate :: isodate
  endDate :: isodate


subsection \<open>Hosts for the examples\<close>

text \<open>
  A server that runs in UTC and whose \<open>Intl\<close> renders an instant in Eastern Standard
  Time (five hours behind UTC, the rule of America/New_York in winter) as
  \<open>MM/DD/YYYY, HH:mm:ss\<close>.
\<close>

definition YearFromDay :: "int \<Rightarrow> int" where
  "YearFromDay day =
     (let y = 1970 + (400 * day) div 146097
      in if DayFromYear (y + 1) \<le> day then y + 1
         else if DayFromYear y \<le> day then y else y - 1)"

definition MonthFromDay :: "int \<Rightarrow> int" where
  "MonthFromDay day =
     (let y = YearFromDay day; doy = day - DayFromYear y
      in int (length (filter (\<lambda>m. monthStart y m \<le> doy) [1, 2, 3, 4, 5, 6, 7, 8, 9, 10, 11])))"

definition DateFromDay :: "int \<Rightarrow> int" where
  "DateFromDay day =
     (let y = YearFromDay day
      in day - DayFromYear y - monthStart y (MonthFromDay day) + 1)"

definition pad2 :: "int \<Rightarrow> string" where
  "pad2 n = padStart (numToString (Num n)) 2 CHR ''0''"

definition easternStandard :: "int \<Rightarrow> string" where
  "easternStandard t =
     (let local = t - 5 * msPerHour; day = Day local
      in pad2 (MonthFromDay day + 1) @ ''/'' @ pad2 (DateFromDay day) @ ''/''
           @ numToString (Num (YearFromDay day)) @ '', '' @ pad2 (HourFromTime local) @ '':''
           @ pad2 (MinFromTime local) @ '':'' @ pad2 ((local div msPerSecond) mod 60))"

definition winterServer :: host where
  "winterServer = \<lparr>standardOffset = 0, daylight = [], isServer = True,
                    toLocaleString = easternStandard\<rparr>"

text \<open>
  A server whose own zone is America/New_York in 2026: five hours behind UTC, with
  daylight saving from 8 March (day 20520) to 1 November (day 20758). Its \<open>Intl\<close>
  renders Eastern time by the same rule.
\<close>

definition easternTime2026 :: "int \<Rightarrow> string" where
  "easternTime2026 t =
     (let local = t - 5 * msPerHour
      in if 20520 * msPerDay + 2 * msPerHour \<le> local \<and> local < 20758 * msPerDay + msPerHour
         then easternStandard (t + msPerHour) else easternStandard t)"

definition newYorkServer :: host where
  "newYorkServer = \<lparr>standardOffset = - 5 * 3600000, daylight = [(20520, 20758)],
                     isServer = True, toLocaleString = easternTime2026\<rparr>"

section \<open>Properties\<close>

subsection \<open>The schedule table and the branches of validateLogin\<close>

lemma timeToMinutes_start:
  "timeToMinutes (start (CLASS_SCHEDULES dt)) = Num (case dt of weekend \<Rightarrow> 720 | weekday \<Rightarrow> 1050)"
  by (cases dt)
     (simp_all add: CLASS_SCHEDULES_def timeToMinutes_def split_def Number_def isDigit_def
        decimalVal_def digitVal_def element_def toNumber_def)

lemma timeToMinutes_end:
  "timeToMinutes (end' (CLASS_SCHEDULES dt)) = Num (case dt of weekend \<Rightarrow> 810 | weekday \<Rightarrow> 1170)"
  by (cases dt)
     (simp_all add: CLASS_SCHEDULES_def timeToMinutes_def split_def Number_def isDigit_def
        decimalVal_def digitVal_def element_def toNumber_def)

lemma thresholds:
  "lateThresholdMinutes (CLASS_SCHEDULES dt) = 15" "earlyLoginMinutes (CLASS_SCHEDULES dt) = 60"
  by (cases dt; simp add: CLASS_SCHEDULES_def)+

lemma determineClassType_eq:
  "getEasternTime h t = Inr d \<Longrightarrow>
   determineClassType h t = Inr (if getDay h d = Num 0 \<or> getDay h d = Num 6 then weekend else weekday)"
  by (simp add: determineClassType_def Let_def)

lemma determineClassType_exists:
  assumes "getEasternTime h t = Inr d"
  obtains dt where "determineClassType h t = Inr dt"
  using determineClassType_eq[OF assms] by blast

lemma validateLogin_wrong_day:
  assumes "getEasternTime h t = Inr d" and "determineClassType h t = Inr dt"
    and "\<not> canAttendClass ct dt"
  shows "validateLogin h ct t =
           Inr \<lparr>allowed = False,
                reason = Some (wrongDayReason ct (index dayNames (getDay h d)) dt),
                status = None, dayType = dt, minutesLate = None, easternTime = d\<rparr>"
  using assms by (simp add: validateLogin_def determineClassType_def Let_def)

lemma validateLogin_too_early:
  assumes "getEasternTime h t = Inr d" and "determineClassType h t = Inr dt"
    and "canAttendClass ct dt"
    and "num_lt (dateToMinutes h d)
           (num_sub (timeToMinutes (start (CLASS_SCHEDULES dt))) (Num (earlyLoginMinutes (CLASS_SCHEDULES dt))))"
  shows "validateLogin h ct t =
           Inr \<lparr>allowed = False,
                reason = Some (tooEarlyReason (displayTimeOf (start (CLASS_SCHEDULES dt)))
                   (timeMessageOf (num_sub (num_sub (timeToMinutes (start (CLASS_SCHEDULES dt)))
                       (Num (earlyLoginMinutes (CLASS_SCHEDULES dt)))) (dateToMinutes h d)))),
                status = None, dayType = dt, minutesLate = None, easternTime = d\<rparr>"
  using assms by (simp add: validateLogin_def determineClassType_def Let_def)

lemma validateLogin_open:
  assumes "getEasternTime h t = Inr d" and "determineClassType h t = Inr dt"
    and "canAttendClass ct dt"
    and "\<not> num_lt (dateToMinutes h d)
           (num_sub (timeToMinutes (start (CLASS_SCHEDULES dt))) (Num (earlyLoginMinutes (CLASS_SCHEDULES dt))))"
  shows "validateLogin h ct t =
          (if num_gt (dateToMinutes h d) (timeToMinutes (end' (CLASS_SCHEDULES dt))) then
             Inr \<lparr>allowed = False, reason = Some classEndedReason,
                  status = None, dayType = dt, minutesLate = None, easternTime = d\<rparr>
           else if num_gt (dateToMinutes h d)
                     (num_add (timeToMinutes (start (CLASS_SCHEDULES dt))) (Num (lateThresholdMinutes (CLASS_SCHEDULES dt)))) then
             Inr \<lparr>allowed = True, reason = None, status = Some late, dayType = dt,
                  minutesLate = Some (num_sub (dateToMinutes h d) (timeToMinutes (start (CLASS_SCHEDULES dt)))),
                  easternTime = d\<rparr>
           else
             Inr \<lparr>allowed = True, reason = None, status = Some on_time, dayType = dt,
                  minutesLate = Some (Num 0), easternTime = d\<rparr>)"
  using assms by (simp add: validateLogin_def determineClassType_def Let_def)

lemma reason_distinct:
  "tooEarlyReason a b \<noteq> wrongDayReason ct dn dt"
  "classEndedReason \<noteq> wrongDayReason ct dn dt"
  "tooEarlyReason a b \<noteq> classEndedReason"
  by (simp_all add: wrongDayReason_def tooEarlyReason_def classEndedReason_def)

lemma validateLogin_cases:
  assumes "validateLogin h ct t = Inr r"
  obtains d dt where "getEasternTime h t = Inr d" "determineClassType h t = Inr dt"
proof (cases "getEasternTime h t")
  case (Inl e)
  with assms show ?thesis by (simp add: validateLogin_def)
next
  case (Inr d)
  with determineClassType_eq[OF Inr] that show ?thesis by blast
qed

subsection \<open>Day type and class type\<close>

text \<open>
  C1. A student registered for one day type only who checks in at an instant whose Eastern
  day of the week gives the other day type is rejected: \<open>allowed\<close> is false, the reason is
  the wrong-day message for the registered class (naming today's day), and \<open>dayType\<close> is
  the day type observed. A student registered for both never gets a wrong-day message,
  whatever the instant.
\<close>

theorem wrong_day_rejection:
  "(getEasternTime h t = Inr d \<longrightarrow> determineClassType h t = Inr dt \<longrightarrow> c \<noteq> dt \<longrightarrow>
      validateLogin h (only c) t =
        Inr \<lparr>allowed = False,
             reason = Some (wrongDayReason (only c) (index dayNames (getDay h d)) dt),
             status = None, dayType = dt, minutesLate = None, easternTime = d\<rparr>)
   \<and> (validateLogin h both t' = Inr r \<longrightarrow> reason r \<noteq> Some (wrongDayReason ct dn dt'))"
proof (intro conjI impI)
  assume "getEasternTime h t = Inr d" "determineClassType h t = Inr dt" "c \<noteq> dt"
  then show "validateLogin h (only c) t =
        Inr \<lparr>allowed = False,
             reason = Some (wrongDayReason (only c) (index dayNames (getDay h d)) dt),
             status = None, dayType = dt, minutesLate = None, easternTime = d\<rparr>"
    by (intro validateLogin_wrong_day) (simp_all add: canAttendClass_def)
next
  assume r: "validateLogin h both t' = Inr r"
  then obtain d dt where e: "getEasternTime h t' = Inr d" "determineClassType h t' = Inr dt"
    by (rule validateLogin_cases)
  have can: "canAttendClass both dt" by (simp add: canAttendClass_def)
  show "reason r \<noteq> Some (wrongDayReason ct dn dt')"
  proof (cases "num_lt (dateToMinutes h d)
           (num_sub (timeToMinutes (start (CLASS_SCHEDULES dt))) (Num (earlyLoginMinutes (CLASS_SCHEDULES dt))))")
    case True
    from validateLogin_too_early[OF e can True] r show ?thesis
      by (auto simp: reason_distinct(1))
  next
    case False
    from validateLogin_open[OF e can False] r show ?thesis
      by (cases "num_gt (dateToMinutes h d) (timeToMinutes (end' (CLASS_SCHEDULES dt)))")
         (auto simp: reason_distinct(2) split: if_splits)
  qed
qed

theorem wrong_day_rejection_witness:
  "getEasternTime winterServer (Num 1770501600000) = Inr (Num 1770483600000)
   \<and> determineClassType winterServer (Num 1770501600000) = Inr weekend
   \<and> weekday \<noteq> weekend
   \<and> validateLogin winterServer (only weekday) (Num 1770501600000) =
        Inr \<lparr>allowed = False,
             reason = Some (wrongDayReason (only weekday) (Some ''Saturday'') weekend),
             status = None, dayType = weekend, minutesLate = None,
             easternTime = Num 1770483600000\<rparr>
   \<and> validateLogin winterServer both (Num 1770501600000) =
        Inr \<lparr>allowed = False, reason = Some classEndedReason,
             status = None, dayType = weekend, minutesLate = None,
             easternTime = Num 1770483600000\<rparr>
   \<and> Some classEndedReason \<noteq> Some (wrongDayReason both None weekend)"
proof -
  have e: "getEasternTime winterServer (Num 1770501600000) = Inr (Num 1770483600000)"
    by code_simp
  have dt: "determineClassType winterServer (Num 1770501600000) = Inr weekend"
    by code_simp
  have dn: "index dayNames (getDay winterServer (Num 1770483600000)) = Some ''Saturday''"
    by code_simp
  have b: "validateLogin winterServer both (Num 1770501600000) =
        Inr \<lparr>allowed = False, reason = Some classEndedReason,
             status = None, dayType = weekend, minutesLate = None,
             easternTime = Num 1770483600000\<rparr>"
    by code_simp
  have ne: "weekday \<noteq> weekend" by simp
  note w = wrong_day_rejection[of winterServer "Num 1770501600000" "Num 1770483600000" weekend weekday
      "Num 1770501600000" "\<lparr>allowed = False, reason = Some classEndedReason,
             status = None, dayType = weekend, minutesLate = None,
             easternTime = Num 1770483600000\<rparr>" both None weekend]
  from w have w1: "validateLogin winterServer (only weekday) (Num 1770501600000) =
        Inr \<lparr>allowed = False,
             reason = Some (wrongDayReason (only weekday) (index dayNames (getDay winterServer (Num 1770483600000))) weekend),
             status = None, dayType = weekend, minutesLate = None,
             easternTime = Num 1770483600000\<rparr>"
    using e dt ne by blast
  from w b have w2: "reason \<lparr>allowed = False, reason = Some classEndedReason,
             status = None, dayType = weekend, minutesLate = None,
             easternTime = Num 1770483600000\<rparr> \<noteq> Some (wrongDayReason both None weekend)"
    by blast
  from w2 have w3: "Some classEndedReason \<noteq> Some (wrongDayReason both None weekend)"
    by (simp only: LoginValidationResult.simps simp_thms)
  from e dt ne w1[unfolded dn] b w3 show ?thesis by (intro conjI)
qed

subsection \<open>The login window\<close>

text \<open>
  C2. On a day that matches the class type, with \<open>nowMin\<close> the minutes since Eastern
  midnight, \<open>startMin\<close> and \<open>endMin\<close> the class times of the day's schedule,
  \<open>earlyOpenMin = startMin - earlyLoginMinutes\<close> and
  \<open>lateThresholdMin = startMin + lateThresholdMinutes\<close>: the check-in is rejected as too
  early exactly when \<open>nowMin < earlyOpenMin\<close>, rejected as ended exactly when
  \<open>endMin < nowMin\<close>, admitted late exactly when \<open>lateThresholdMin < nowMin \<le> endMin\<close>, and
  admitted on time exactly when \<open>earlyOpenMin \<le> nowMin \<le> lateThresholdMin\<close>. The bounds lie
  in the order \<open>earlyOpenMin \<le> lateThresholdMin < endMin\<close>, so that from \<open>earlyOpenMin\<close>
  onwards the outcomes on time, late and ended follow one another, each on one interval.
\<close>

theorem login_window:
  assumes e: "getEasternTime h t = Inr d" and dt: "determineClassType h t = Inr dt"
    and can: "canAttendClass ct dt" and now: "dateToMinutes h d = Num nowMin"
  shows "\<exists>r startMin endMin.
           validateLogin h ct t = Inr r
         \<and> timeToMinutes (start (CLASS_SCHEDULES dt)) = Num startMin
         \<and> timeToMinutes (end' (CLASS_SCHEDULES dt)) = Num endMin
         \<and> (let earlyOpenMin = startMin - earlyLoginMinutes (CLASS_SCHEDULES dt);
                 lateThresholdMin = startMin + lateThresholdMinutes (CLASS_SCHEDULES dt)
             in dayType r = dt
              \<and> ((\<not> allowed r \<and> reason r = Some (tooEarlyReason (displayTimeOf (start (CLASS_SCHEDULES dt)))
                                       (timeMessageOf (Num (earlyOpenMin - nowMin)))))
                   \<longleftrightarrow> nowMin < earlyOpenMin)
              \<and> ((\<not> allowed r \<and> reason r = Some classEndedReason) \<longleftrightarrow> endMin < nowMin)
              \<and> ((allowed r \<and> status r = Some late) \<longleftrightarrow> lateThresholdMin < nowMin \<and> nowMin \<le> endMin)
              \<and> ((allowed r \<and> status r = Some on_time) \<longleftrightarrow> earlyOpenMin \<le> nowMin \<and> nowMin \<le> lateThresholdMin)
              \<and> earlyOpenMin \<le> lateThresholdMin \<and> lateThresholdMin < endMin)"
proof (cases "num_lt (dateToMinutes h d)
           (num_sub (timeToMinutes (start (CLASS_SCHEDULES dt))) (Num (earlyLoginMinutes (CLASS_SCHEDULES dt))))")
  case True
  note r = validateLogin_too_early[OF e dt can True]
  from True show ?thesis
    by (cases dt)
       (simp_all add: r now timeToMinutes_start timeToMinutes_end thresholds Let_def
          reason_distinct)
next
  case False
  note r = validateLogin_open[OF e dt can False]
  from False show ?thesis
    by (cases dt)
       (auto simp add: r now timeToMinutes_start timeToMinutes_end thresholds Let_def
          reason_distinct reason_distinct[symmetric])
qed

theorem login_window_witness:
  "getEasternTime winterServer (Num 1770677400000) = Inr (Num 1770659400000)
   \<and> determineClassType winterServer (Num 1770677400000) = Inr weekday
   \<and> canAttendClass (only weekday) weekday
   \<and> dateToMinutes winterServer (Num 1770659400000) = Num 1070
   \<and> (\<exists>r. validateLogin winterServer (only weekday) (Num 1770677400000) = Inr r
          \<and> allowed r \<and> status r = Some late)"
proof -
  have e: "getEasternTime winterServer (Num 1770677400000) = Inr (Num 1770659400000)"
    by code_simp
  have dt: "determineClassType winterServer (Num 1770677400000) = Inr weekday"
    by code_simp
  have can: "canAttendClass (only weekday) weekday"
    by (simp add: canAttendClass_def)
  have now: "dateToMinutes winterServer (Num 1770659400000) = Num 1070"
    by code_simp
  from login_window[OF e dt can now] have
    "\<exists>r. validateLogin winterServer (only weekday) (Num 1770677400000) = Inr r
          \<and> allowed r \<and> status r = Some late"
    by (auto simp add: timeToMinutes_start timeToMinutes_end thresholds Let_def)
  with e dt can now show ?thesis by (intro conjI)
qed

subsection \<open>Minutes late\<close>

lemma admitted_result:
  assumes e: "getEasternTime h t = Inr d" and now: "dateToMinutes h d = Num nowMin"
    and r: "validateLogin h ct t = Inr r" and a: "allowed r"
  shows "\<exists>s. timeToMinutes (start (CLASS_SCHEDULES (dayType r))) = Num s
           \<and> lateThresholdMinutes (CLASS_SCHEDULES (dayType r)) = 15
           \<and> (if s + 15 < nowMin
               then status r = Some late \<and> minutesLate r = Some (Num (nowMin - s))
               else status r = Some on_time \<and> minutesLate r = Some (Num 0))"
proof -
  from e obtain dt where dt: "determineClassType h t = Inr dt"
    by (rule determineClassType_exists)
  show ?thesis
  proof (cases "canAttendClass ct dt")
    case False
    from validateLogin_wrong_day[OF e dt False] r a show ?thesis by auto
  next
    case True
    show ?thesis
    proof (cases "num_lt (dateToMinutes h d)
           (num_sub (timeToMinutes (start (CLASS_SCHEDULES dt))) (Num (earlyLoginMinutes (CLASS_SCHEDULES dt))))")
      case True
      from validateLogin_too_early[OF e dt \<open>canAttendClass ct dt\<close> True] r a show ?thesis by auto
    next
      case False
      from validateLogin_open[OF e dt True False] r a show ?thesis
        by (cases dt)
           (auto simp add: now timeToMinutes_start timeToMinutes_end thresholds split: if_splits)
    qed
  qed
qed

text \<open>
  On Monday 9 February 2026 at 17:45 Eastern (22:45 UTC) a weekday student is admitted on
  time with \<open>minutesLate = 0\<close>, fifteen minutes after the class started at 17:30: an
  admitted check-in whose \<open>minutesLate\<close> is not \<open>nowMin - startMin\<close>.
\<close>

theorem minutesLate_boundary_counterexample:
  "validateLogin winterServer (only weekday) (Num 1770677100000) =
     Inr \<lparr>allowed = True, reason = None, status = Some on_time, dayType = weekday,
          minutesLate = Some (Num 0), easternTime = Num 1770659100000\<rparr>
   \<and> num_sub (dateToMinutes winterServer (Num 1770659100000))
        (timeToMinutes (start (CLASS_SCHEDULES weekday))) = Num 15"
  by code_simp

text \<open>
  C3, as the code has it. An admitted check-in is late or on time. When it is late,
  \<open>minutesLate\<close> is \<open>nowMin - startMin\<close>; when it is on time, \<open>minutesLate\<close> is 0, and so
  it is at the on-time boundary \<open>nowMin = lateThresholdMin\<close>. Between two admitted
  check-ins of the same day type, \<open>minutesLate\<close> does not decrease as \<open>nowMin\<close> grows,
  and it grows strictly from a late check-in onwards.
\<close>

theorem minutesLate_admitted:
  assumes e: "getEasternTime h t = Inr d" and now: "dateToMinutes h d = Num nowMin"
    and r: "validateLogin h ct t = Inr r" and a: "allowed r"
  shows "\<exists>startMin.
           timeToMinutes (start (CLASS_SCHEDULES (dayType r))) = Num startMin
         \<and> (status r = Some late \<or> status r = Some on_time)
         \<and> (status r = Some late \<longrightarrow> minutesLate r = Some (Num (nowMin - startMin)))
         \<and> (status r = Some on_time \<longrightarrow> minutesLate r = Some (Num 0))
         \<and> (nowMin = startMin + lateThresholdMinutes (CLASS_SCHEDULES (dayType r)) \<longrightarrow>
               status r = Some on_time \<and> minutesLate r = Some (Num 0))
         \<and> (\<forall>t' d' nowMin' ct' r'.
               getEasternTime h t' = Inr d' \<and> dateToMinutes h d' = Num nowMin'
               \<and> validateLogin h ct' t' = Inr r' \<and> allowed r' \<and> dayType r' = dayType r
               \<and> nowMin < nowMin' \<longrightarrow>
               (\<exists>m m'. minutesLate r = Some (Num m) \<and> minutesLate r' = Some (Num m')
                  \<and> m \<le> m' \<and> (status r = Some late \<longrightarrow> m < m')))"
proof -
  from admitted_result[OF e now r a] obtain s where
    s: "timeToMinutes (start (CLASS_SCHEDULES (dayType r))) = Num s"
    and thr: "lateThresholdMinutes (CLASS_SCHEDULES (dayType r)) = 15"
    and res: "if s + 15 < nowMin
               then status r = Some late \<and> minutesLate r = Some (Num (nowMin - s))
               else status r = Some on_time \<and> minutesLate r = Some (Num 0)"
    by blast
  have later: "\<exists>m m'. minutesLate r = Some (Num m) \<and> minutesLate r' = Some (Num m')
                  \<and> m \<le> m' \<and> (status r = Some late \<longrightarrow> m < m')"
    if e': "getEasternTime h t' = Inr d'" and now': "dateToMinutes h d' = Num nowMin'"
      and r': "validateLogin h ct' t' = Inr r'" and a': "allowed r'"
      and same: "dayType r' = dayType r" and less: "nowMin < nowMin'"
    for t' d' nowMin' ct' r'
  proof -
    from admitted_result[OF e' now' r' a'] s same have
      res': "if s + 15 < nowMin'
               then status r' = Some late \<and> minutesLate r' = Some (Num (nowMin' - s))
               else status r' = Some on_time \<and> minutesLate r' = Some (Num 0)"
      by auto
    from res res' less show ?thesis
      by (cases "s + 15 < nowMin"; cases "s + 15 < nowMin'") auto
  qed
  from s thr res have "timeToMinutes (start (CLASS_SCHEDULES (dayType r))) = Num s
         \<and> (status r = Some late \<or> status r = Some on_time)
         \<and> (status r = Some late \<longrightarrow> minutesLate r = Some (Num (nowMin - s)))
         \<and> (status r = Some on_time \<longrightarrow> minutesLate r = Some (Num 0))
         \<and> (nowMin = s + lateThresholdMinutes (CLASS_SCHEDULES (dayType r)) \<longrightarrow>
               status r = Some on_time \<and> minutesLate r = Some (Num 0))"
    by (cases "s + 15 < nowMin") auto
  with later show ?thesis by blast
qed

theorem minutesLate_admitted_witness:
  "getEasternTime winterServer (Num 1770677400000) = Inr (Num 1770659400000)
   \<and> dateToMinutes winterServer (Num 1770659400000) = Num 1070
   \<and> validateLogin winterServer (only weekday) (Num 1770677400000) =
        Inr \<lparr>allowed = True, reason = None, status = Some late, dayType = weekday,
             minutesLate = Some (Num 20), easternTime = Num 1770659400000\<rparr>
   \<and> getEasternTime winterServer (Num 1770678000000) = Inr (Num 1770660000000)
   \<and> dateToMinutes winterServer (Num 1770660000000) = Num 1080
   \<and> validateLogin winterServer both (Num 1770678000000) =
        Inr \<lparr>allowed = True, reason = None, status = Some late, dayType = weekday,
             minutesLate = Some (Num 30), easternTime = Num 1770660000000\<rparr>
   \<and> (\<exists>m m'. Some (Num 20) = Some (Num m) \<and> Some (Num 30) = Some (Num m') \<and> m < m')"
proof -
  let ?r = "\<lparr>allowed = True, reason = None, status = Some late, dayType = weekday,
             minutesLate = Some (Num 20), easternTime = Num 1770659400000\<rparr>"
  let ?r' = "\<lparr>allowed = True, reason = None, status = Some late, dayType = weekday,
             minutesLate = Some (Num 30), easternTime = Num 1770660000000\<rparr>"
  have e: "getEasternTime winterServer (Num 1770677400000) = Inr (Num 1770659400000)"
    by code_simp
  have now: "dateToMinutes winterServer (Num 1770659400000) = Num 1070"
    by code_simp
  have r: "validateLogin winterServer (only weekday) (Num 1770677400000) = Inr ?r"
    by code_simp
  have a: "allowed ?r" by simp
  have e': "getEasternTime winterServer (Num 1770678000000) = Inr (Num 1770660000000)"
    by code_simp
  have now': "dateToMinutes winterServer (Num 1770660000000) = Num 1080"
    by code_simp
  have r': "validateLogin winterServer both (Num 1770678000000) = Inr ?r'"
    by code_simp
  from minutesLate_admitted[OF e now r a] have
    "\<forall>t' d' nowMin' ct' r'.
               getEasternTime winterServer t' = Inr d' \<and> dateToMinutes winterServer d' = Num nowMin'
               \<and> validateLogin winterServer ct' t' = Inr r' \<and> allowed r' \<and> dayType r' = dayType ?r
               \<and> 1070 < nowMin' \<longrightarrow>
               (\<exists>m m'. minutesLate ?r = Some (Num m) \<and> minutesLate r' = Some (Num m')
                  \<and> m \<le> m' \<and> (status ?r = Some late \<longrightarrow> m < m'))"
    by blast
  from this[rule_format, of "Num 1770678000000" "Num 1770660000000" 1080 both ?r'] e' now' r'
  have "\<exists>m m'. Some (Num 20) = Some (Num m) \<and> Some (Num 30) = Some (Num m') \<and> m < m'"
    by simp
  with e now r e' now' r' show ?thesis by (intro conjI)
qed

subsection \<open>Scenarios of the production schedule\<close>

text \<open>
  C8. The table holds the production schedule (weekdays 17:30 to 19:30, weekends 12:00
  to 13:30, late after 15 minutes, login from 60 minutes before). Under it a weekday
  student at 17:50 Eastern on a Monday is admitted late with \<open>minutesLate = 20\<close>, and a
  weekend student at 11:30 Eastern on a Saturday is admitted on time with
  \<open>minutesLate = 0\<close>.
\<close>

theorem production_scenarios:
  "CLASS_SCHEDULES weekday = \<lparr>start = ''17:30'', end' = ''19:30'',
                                lateThresholdMinutes = 15, earlyLoginMinutes = 60\<rparr>
   \<and> CLASS_SCHEDULES weekend = \<lparr>start = ''12:00'', end' = ''13:30'',
                                  lateThresholdMinutes = 15, earlyLoginMinutes = 60\<rparr>
   \<and> (getEasternTime h t = Inr d \<and> getDay h d = Num 1 \<and> getHours h d = Num 17
        \<and> getMinutes h d = Num 50 \<longrightarrow>
        validateLogin h (only weekday) t =
          Inr \<lparr>allowed = True, reason = None, status = Some late, dayType = weekday,
               minutesLate = Some (Num 20), easternTime = d\<rparr>)
   \<and> (getEasternTime h t' = Inr d' \<and> getDay h d' = Num 6 \<and> getHours h d' = Num 11
        \<and> getMinutes h d' = Num 30 \<longrightarrow>
        validateLogin h (only weekend) t' =
          Inr \<lparr>allowed = True, reason = None, status = Some on_time, dayType = weekend,
               minutesLate = Some (Num 0), easternTime = d'\<rparr>)"
proof (intro conjI impI)
  show "CLASS_SCHEDULES weekday = \<lparr>start = ''17:30'', end' = ''19:30'',
                                lateThresholdMinutes = 15, earlyLoginMinutes = 60\<rparr>"
    by (simp add: CLASS_SCHEDULES_def)
  show "CLASS_SCHEDULES weekend = \<lparr>start = ''12:00'', end' = ''13:30'',
                                  lateThresholdMinutes = 15, earlyLoginMinutes = 60\<rparr>"
    by (simp add: CLASS_SCHEDULES_def)
next
  assume h: "getEasternTime h t = Inr d \<and> getDay h d = Num 1 \<and> getHours h d = Num 17
        \<and> getMinutes h d = Num 50"
  then have e: "getEasternTime h t = Inr d" by simp
  from h determineClassType_eq[OF e] have dt: "determineClassType h t = Inr weekday" by simp
  have can: "canAttendClass (only weekday) weekday" by (simp add: canAttendClass_def)
  from h have now: "dateToMinutes h d = Num 1070" by (simp add: dateToMinutes_def)
  have early: "\<not> num_lt (dateToMinutes h d)
           (num_sub (timeToMinutes (start (CLASS_SCHEDULES weekday))) (Num (earlyLoginMinutes (CLASS_SCHEDULES weekday))))"
    by (simp add: now timeToMinutes_start thresholds)
  from validateLogin_open[OF e dt can early]
  show "validateLogin h (only weekday) t =
          Inr \<lparr>allowed = True, reason = None, status = Some late, dayType = weekday,
               minutesLate = Some (Num 20), easternTime = d\<rparr>"
    by (simp add: now timeToMinutes_start timeToMinutes_end thresholds)
next
  assume h: "getEasternTime h t' = Inr d' \<and> getDay h d' = Num 6 \<and> getHours h d' = Num 11
        \<and> getMinutes h d' = Num 30"
  then have e: "getEasternTime h t' = Inr d'" by simp
  from h determineClassType_eq[OF e] have dt: "determineClassType h t' = Inr weekend" by simp
  have can: "canAttendClass (only weekend) weekend" by (simp add: canAttendClass_def)
  from h have now: "dateToMinutes h d' = Num 690" by (simp add: dateToMinutes_def)
  have early: "\<not> num_lt (dateToMinutes h d')
           (num_sub (timeToMinutes (start (CLASS_SCHEDULES weekend))) (Num (earlyLoginMinutes (CLASS_SCHEDULES weekend))))"
    by (simp add: now timeToMinutes_start thresholds)
  from validateLogin_open[OF e dt can early]
  show "validateLogin h (only weekend) t' =
          Inr \<lparr>allowed = True, reason = None, status = Some on_time, dayType = weekend,
               minutesLate = Some (Num 0), easternTime = d'\<rparr>"
    by (simp add: now timeToMinutes_start timeToMinutes_end thresholds)
qed

theorem production_scenarios_witness:
  "(getEasternTime winterServer (Num 1770677400000) = Inr (Num 1770659400000)
     \<and> getDay winterServer (Num 1770659400000) = Num 1
     \<and> getHours winterServer (Num 1770659400000) = Num 17
     \<and> getMinutes winterServer (Num 1770659400000) = Num 50)
   \<and> validateLogin winterServer (only weekday) (Num 1770677400000) =
        Inr \<lparr>allowed = True, reason = None, status = Some late, dayType = weekday,
             minutesLate = Some (Num 20), easternTime = Num 1770659400000\<rparr>
   \<and> (getEasternTime winterServer (Num 1770481800000) = Inr (Num 1770463800000)
     \<and> getDay winterServer (Num 1770463800000) = Num 6
     \<and> getHours winterServer (Num 1770463800000) = Num 11
     \<and> getMinutes winterServer (Num 1770463800000) = Num 30)
   \<and> validateLogin winterServer (only weekend) (Num 1770481800000) =
        Inr \<lparr>allowed = True, reason = None, status = Some on_time, dayType = weekend,
             minutesLate = Some (Num 0), easternTime = Num 1770463800000\<rparr>"
proof -
  have m: "getEasternTime winterServer (Num 1770677400000) = Inr (Num 1770659400000)
     \<and> getDay winterServer (Num 1770659400000) = Num 1
     \<and> getHours winterServer (Num 1770659400000) = Num 17
     \<and> getMinutes winterServer (Num 1770659400000) = Num 50"
    by code_simp
  have s: "getEasternTime winterServer (Num 1770481800000) = Inr (Num 1770463800000)
     \<and> getDay winterServer (Num 1770463800000) = Num 6
     \<and> getHours winterServer (Num 1770463800000) = Num 11
     \<and> getMinutes winterServer (Num 1770463800000) = Num 30"
    by code_simp
  note p = production_scenarios[of winterServer "Num 1770677400000" "Num 1770659400000"
      "Num 1770481800000" "Num 1770463800000"]
  from p m have 1: "validateLogin winterServer (only weekday) (Num 1770677400000) =
        Inr \<lparr>allowed = True, reason = None, status = Some late, dayType = weekday,
             minutesLate = Some (Num 20), easternTime = Num 1770659400000\<rparr>"
    by blast
  from p s have 2: "validateLogin winterServer (only weekend) (Num 1770481800000) =
        Inr \<lparr>allowed = True, reason = None, status = Some on_time, dayType = weekend,
             minutesLate = Some (Num 0), easternTime = Num 1770463800000\<rparr>"
    by blast
  from m 1 s 2 show ?thesis by blast
qed

subsection \<open>Shape of the result\<close>

text \<open>
  C9. A result of \<open>validateLogin\<close> has one of two shapes. A rejection carries a reason and
  neither a status nor \<open>minutesLate\<close>; an admission carries a status and no reason. On
  time means \<open>minutesLate = 0\<close>, and late means that \<open>minutesLate\<close> exceeds the late
  threshold of the day's schedule. In both, \<open>easternTime\<close> is the Eastern time resolved
  from the instant and \<open>dayType\<close> is its day type.
\<close>

theorem result_shape:
  assumes r: "validateLogin h ct t = Inr r"
  shows "(\<not> allowed r \<longrightarrow> reason r \<noteq> None \<and> status r = None \<and> minutesLate r = None)
       \<and> (allowed r \<longrightarrow> status r \<noteq> None \<and> reason r = None)
       \<and> (status r = Some on_time \<longrightarrow> minutesLate r = Some (Num 0))
       \<and> (status r = Some late \<longrightarrow>
            (\<exists>m. minutesLate r = Some (Num m)
                \<and> lateThresholdMinutes (CLASS_SCHEDULES (dayType r)) < m))
       \<and> getEasternTime h t = Inr (easternTime r)
       \<and> determineClassType h t = Inr (dayType r)"
proof -
  from r obtain d dt where e: "getEasternTime h t = Inr d"
    and dt: "determineClassType h t = Inr dt"
    by (rule validateLogin_cases)
  show ?thesis
  proof (cases "canAttendClass ct dt")
    case False
    from validateLogin_wrong_day[OF e dt False] r e dt show ?thesis by auto
  next
    case True
    show ?thesis
    proof (cases "num_lt (dateToMinutes h d)
           (num_sub (timeToMinutes (start (CLASS_SCHEDULES dt))) (Num (earlyLoginMinutes (CLASS_SCHEDULES dt))))")
      case True
      from validateLogin_too_early[OF e dt \<open>canAttendClass ct dt\<close> True] r e dt
      show ?thesis by auto
    next
      case False
      note window = validateLogin_open[OF e dt True False]
      show ?thesis
      proof (cases "dateToMinutes h d")
        case NaN
        with window r e dt show ?thesis
          by (auto simp add: timeToMinutes_start timeToMinutes_end)
      next
        case (Num m)
        with window r e dt show ?thesis
          by (cases dt)
             (auto simp add: timeToMinutes_start timeToMinutes_end thresholds split: if_splits)
      qed
    qed
  qed
qed

theorem result_shape_witness:
  "validateLogin winterServer (only weekday) (Num 1770677400000) =
     Inr \<lparr>allowed = True, reason = None, status = Some late, dayType = weekday,
          minutesLate = Some (Num 20), easternTime = Num 1770659400000\<rparr>
   \<and> (\<exists>m. Some (Num 20) = Some (Num m) \<and> 15 < m)
   \<and> getEasternTime winterServer (Num 1770677400000) = Inr (Num 1770659400000)
   \<and> determineClassType winterServer (Num 1770677400000) = Inr weekday"
proof -
  have r: "validateLogin winterServer (only weekday) (Num 1770677400000) =
     Inr \<lparr>allowed = True, reason = None, status = Some late, dayType = weekday,
          minutesLate = Some (Num 20), easternTime = Num 1770659400000\<rparr>"
    by code_simp
  from result_shape[OF r] r show ?thesis
    by (simp add: thresholds)
qed

subsection \<open>Agreement with calculateLateStatus\<close>

text \<open>
  C10. Whenever \<open>validateLogin\<close> admits a check-in, \<open>calculateLateStatus\<close> on the same
  instant and the day type of the result returns, with \<open>isLate\<close> true exactly when the
  status is late, and then \<open>lateMinutes\<close> is the \<open>minutesLate\<close> of the result.
\<close>

theorem late_status_agrees:
  assumes r: "validateLogin h ct t = Inr r" and a: "allowed r"
  shows "\<exists>ls. calculateLateStatus h t (dayType r) = Inr ls
            \<and> (isLate ls \<longleftrightarrow> status r = Some late)
            \<and> (isLate ls \<longrightarrow> lateMinutes ls = minutesLate r)"
proof -
  from r obtain d dt where e: "getEasternTime h t = Inr d"
    and dt: "determineClassType h t = Inr dt"
    by (rule validateLogin_cases)
  show ?thesis
  proof (cases "canAttendClass ct dt")
    case False
    from validateLogin_wrong_day[OF e dt False] r a show ?thesis by auto
  next
    case True
    show ?thesis
    proof (cases "num_lt (dateToMinutes h d)
           (num_sub (timeToMinutes (start (CLASS_SCHEDULES dt))) (Num (earlyLoginMinutes (CLASS_SCHEDULES dt))))")
      case True
      from validateLogin_too_early[OF e dt \<open>canAttendClass ct dt\<close> True] r a
      show ?thesis by auto
    next
      case False
      from validateLogin_open[OF e dt True False] r a show ?thesis
        by (auto simp add: calculateLateStatus_def e Let_def split: if_splits)
    qed
  qed
qed

theorem late_status_agrees_witness:
  "validateLogin winterServer (only weekday) (Num 1770677400000) =
     Inr \<lparr>allowed = True, reason = None, status = Some late, dayType = weekday,
          minutesLate = Some (Num 20), easternTime = Num 1770659400000\<rparr>
   \<and> (\<exists>ls. calculateLateStatus winterServer (Num 1770677400000) weekday = Inr ls
          \<and> isLate ls \<and> lateMinutes ls = Some (Num 20))"
proof -
  let ?r = "\<lparr>allowed = True, reason = None, status = Some late, dayType = weekday,
          minutesLate = Some (Num 20), easternTime = Num 1770659400000\<rparr>"
  have r: "validateLogin winterServer (only weekday) (Num 1770677400000) = Inr ?r"
    by code_simp
  have a: "allowed ?r" by simp
  from late_status_agrees[OF r a] r show ?thesis
    by auto
qed

subsection \<open>validateLogin returns a result\<close>

lemma split_from_none:
  "x \<notin> set a \<Longrightarrow> split_from (x # xs) cur a = [cur @ a]"
proof (induction a arbitrary: cur)
  case Nil
  then show ?case by simp
next
  case (Cons c a)
  then have "c \<noteq> x" and "x \<notin> set a" by auto
  with Cons.IH[of "cur @ [c]"] show ?case by simp
qed

lemma punctuation_not_digit:
  "\<not> isDigit (CHR '','')" "\<not> isDigit (CHR ''/'')" "\<not> isDigit (CHR '':'')"
  by (simp_all add: isDigit_def)

lemma digits_no_punctuation:
  assumes "list_all isDigit s"
  shows "CHR '','' \<notin> set s" "CHR ''/'' \<notin> set s" "CHR '':'' \<notin> set s"
  using assms punctuation_not_digit unfolding list_all_iff by blast+

lemma split_from_first:
  "x \<notin> set a \<Longrightarrow>
   split_from (x # xs) cur (a @ (x # xs) @ b) = (cur @ a) # split_from (x # xs) [] b"
proof (induction a arbitrary: cur)
  case Nil
  show ?case by simp
next
  case (Cons c a)
  then have "c \<noteq> x" and "x \<notin> set a" by auto
  with Cons.IH[of "cur @ [c]"] show ?case by simp
qed

lemma split_rendering:
  assumes "list_all isDigit mo" "list_all isDigit dd" "list_all isDigit yy"
    and "list_all isDigit hh" "list_all isDigit mi" "list_all isDigit ss"
  shows "split '', '' (mo @ ''/'' @ dd @ ''/'' @ yy @ '', '' @ hh @ '':'' @ mi @ '':'' @ ss)
           = [mo @ ''/'' @ dd @ ''/'' @ yy, hh @ '':'' @ mi @ '':'' @ ss]"
    and "split ''/'' (mo @ ''/'' @ dd @ ''/'' @ yy) = [mo, dd, yy]"
    and "split '':'' (hh @ '':'' @ mi @ '':'' @ ss) = [hh, mi, ss]"
proof -
  have 1: "CHR '','' \<notin> set (mo @ ''/'' @ dd @ ''/'' @ yy)"
    using assms digits_no_punctuation(1) by simp
  have 2: "CHR '','' \<notin> set (hh @ '':'' @ mi @ '':'' @ ss)"
    using assms digits_no_punctuation(1) by simp
  from split_from_first[OF 1, of "'' ''" "[]" "hh @ '':'' @ mi @ '':'' @ ss"]
    split_from_none[OF 2, of "'' ''" "[]"]
  show "split '', '' (mo @ ''/'' @ dd @ ''/'' @ yy @ '', '' @ hh @ '':'' @ mi @ '':'' @ ss)
           = [mo @ ''/'' @ dd @ ''/'' @ yy, hh @ '':'' @ mi @ '':'' @ ss]"
    by (simp add: split_def)
  from split_from_first[of "CHR ''/''" mo "[]" "[]" "dd @ ''/'' @ yy"]
    split_from_first[of "CHR ''/''" dd "[]" "[]" yy]
    split_from_none[of "CHR ''/''" yy "[]" "[]"] assms digits_no_punctuation(2)
  show "split ''/'' (mo @ ''/'' @ dd @ ''/'' @ yy) = [mo, dd, yy]"
    by (simp add: split_def)
  from split_from_first[of "CHR '':''" hh "[]" "[]" "mi @ '':'' @ ss"]
    split_from_first[of "CHR '':''" mi "[]" "[]" ss]
    split_from_none[of "CHR '':''" ss "[]" "[]"] assms digits_no_punctuation(3)
  show "split '':'' (hh @ '':'' @ mi @ '':'' @ ss) = [hh, mi, ss]"
    by (simp add: split_def)
qed

lemma getEasternTime_rendering:
  assumes "toLocaleString h t = mo @ ''/'' @ dd @ ''/'' @ yy @ '', '' @ hh @ '':'' @ mi @ '':'' @ ss"
    and "list_all isDigit mo" "list_all isDigit dd" "list_all isDigit yy"
    and "list_all isDigit hh" "list_all isDigit mi" "list_all isDigit ss"
  shows "\<exists>d. getEasternTime h (Num t) = Inr d"
  using assms(1) split_rendering[OF assms(2-7)]
  by (simp add: getEasternTime_def Let_def element_def)

lemma validateLogin_returns:
  assumes "getEasternTime h t = Inr d"
  shows "\<exists>r. validateLogin h ct t = Inr r
           \<and> (allowed r
              \<or> \<not> allowed r \<and> (\<exists>dn. reason r = Some (wrongDayReason ct dn (dayType r)))
              \<or> \<not> allowed r \<and> (\<exists>dtm tm. reason r = Some (tooEarlyReason dtm tm))
              \<or> \<not> allowed r \<and> reason r = Some classEndedReason)"
proof -
  from assms obtain dt where dt: "determineClassType h t = Inr dt"
    by (rule determineClassType_exists)
  show ?thesis
  proof (cases "canAttendClass ct dt")
    case False
    from validateLogin_wrong_day[OF assms dt False] show ?thesis by auto
  next
    case True
    show ?thesis
    proof (cases "num_lt (dateToMinutes h d)
           (num_sub (timeToMinutes (start (CLASS_SCHEDULES dt))) (Num (earlyLoginMinutes (CLASS_SCHEDULES dt))))")
      case True
      from validateLogin_too_early[OF assms dt \<open>canAttendClass ct dt\<close> True]
      show ?thesis by auto
    next
      case False
      from validateLogin_open[OF assms dt True False] show ?thesis by auto
    qed
  qed
qed

text \<open>
  C7. For a valid instant, which the runtime renders in the shape \<open>MM/DD/YYYY, HH:mm:ss\<close>
  (runs of digits between the separators), \<open>validateLogin\<close> throws nothing for any of the
  three class types: it returns a result, and a result that is not an admission is a
  rejection with \<open>allowed\<close> false and the wrong-day, the too-early or the class-ended
  message as its reason.
\<close>

theorem validateLogin_never_throws:
  assumes "toLocaleString h t = mo @ ''/'' @ dd @ ''/'' @ yy @ '', '' @ hh @ '':'' @ mi @ '':'' @ ss"
    and "list_all isDigit mo" and "list_all isDigit dd" and "list_all isDigit yy"
    and "list_all isDigit hh" and "list_all isDigit mi" and "list_all isDigit ss"
  shows "\<exists>r. validateLogin h ct (Num t) = Inr r
           \<and> (allowed r
              \<or> \<not> allowed r \<and> (\<exists>dn. reason r = Some (wrongDayReason ct dn (dayType r)))
              \<or> \<not> allowed r \<and> (\<exists>dtm tm. reason r = Some (tooEarlyReason dtm tm))
              \<or> \<not> allowed r \<and> reason r = Some classEndedReason)"
proof -
  from getEasternTime_rendering[OF assms] obtain d where "getEasternTime h (Num t) = Inr d"
    by blast
  then show ?thesis by (rule validateLogin_returns)
qed

theorem validateLogin_never_throws_witness:
  "toLocaleString winterServer 1770677400000 =
     ''02'' @ ''/'' @ ''09'' @ ''/'' @ ''2026'' @ '', '' @ ''17'' @ '':'' @ ''50'' @ '':'' @ ''00''
   \<and> list_all isDigit ''02'' \<and> list_all isDigit ''09'' \<and> list_all isDigit ''2026''
   \<and> list_all isDigit ''17'' \<and> list_all isDigit ''50'' \<and> list_all isDigit ''00''
   \<and> (\<exists>r. validateLogin winterServer (only weekday) (Num 1770677400000) = Inr r)"
proof -
  have s: "toLocaleString winterServer 1770677400000 =
     ''02'' @ ''/'' @ ''09'' @ ''/'' @ ''2026'' @ '', '' @ ''17'' @ '':'' @ ''50'' @ '':'' @ ''00''"
    by code_simp
  have d: "list_all isDigit ''02''" "list_all isDigit ''09''" "list_all isDigit ''2026''"
    "list_all isDigit ''17''" "list_all isDigit ''50''" "list_all isDigit ''00''"
    by (simp_all add: isDigit_def)
  from validateLogin_never_throws[OF s d, of "only weekday"]
  have "\<exists>r. validateLogin winterServer (only weekday) (Num 1770677400000) = Inr r"
    by blast
  with s d show ?thesis by blast
qed

text \<open>
  The instant has to be valid: on an invalid date the call throws, \<open>RangeError\<close> from the
  debug line on the server and \<open>TypeError\<close> from \<open>timePart.split\<close> elsewhere.
\<close>

lemma validateLogin_invalid_instant:
  "validateLogin h ct NaN = Inl (if isServer h then RangeError else TypeError)"
  by (simp add: validateLogin_def getEasternTime_def split_def element_def)

subsection \<open>Week numbers\<close>

lemma LocalTZA_cases:
  "LocalTZA h t u = standardOffset h \<or> LocalTZA h t u = standardOffset h + msPerHour"
  by (simp add: LocalTZA_def Let_def)

lemma LocalTZA_constant: "daylight h = [] \<Longrightarrow> LocalTZA h t u = standardOffset h"
  by (simp add: LocalTZA_def Let_def)

lemma Day_le:
  assumes "x < (b + 1) * msPerDay"
  shows "Day x \<le> b"
proof -
  have d: "0 < msPerDay" by (simp add: msPerDay_def)
  have "x = Day x * msPerDay + x mod msPerDay" by (simp add: Day_def)
  moreover have "0 \<le> x mod msPerDay" using d by simp
  ultimately have "Day x * msPerDay < (b + 1) * msPerDay" using assms by linarith
  with d have "Day x < b + 1" by (simp only: mult_less_cancel_right_pos)
  then show ?thesis by simp
qed

lemma Day_ge:
  assumes "b * msPerDay \<le> x"
  shows "b \<le> Day x"
proof -
  have d: "0 < msPerDay" by (simp add: msPerDay_def)
  have "x = Day x * msPerDay + x mod msPerDay" by (simp add: Day_def)
  moreover have "x mod msPerDay < msPerDay" using d by simp
  ultimately have "b * msPerDay < (Day x + 1) * msPerDay"
    using assms by (simp add: distrib_right)
  with d have "b < Day x + 1" by (simp only: mult_less_cancel_right_pos)
  then show ?thesis by simp
qed

lemma Day_mono: "x \<le> y \<Longrightarrow> Day x \<le> Day y"
  by (simp add: Day_def msPerDay_def zdiv_mono1)

lemma LocalTime_saving:
  "LocalTime h t = t + standardOffset h
     + (if list_ex (\<lambda>(a, b). a * msPerDay + 2 * msPerHour \<le> t + standardOffset h
                              \<and> t + standardOffset h < b * msPerDay + msPerHour) (daylight h)
        then msPerHour else 0)"
  by (simp add: LocalTime_def LocalTZA_def Let_def)

lemma Day_LocalTime_mono:
  assumes "t \<le> t'"
  shows "Day (LocalTime h t) \<le> Day (LocalTime h t')"
proof -
  let ?P = "\<lambda>x. list_ex (\<lambda>(a, b). a * msPerDay + 2 * msPerHour \<le> x + standardOffset h
                              \<and> x + standardOffset h < b * msPerDay + msPerHour) (daylight h)"
  have hour: "0 \<le> msPerHour" "2 * msPerHour < msPerDay"
    by (simp_all add: msPerHour_def msPerDay_def)
  show ?thesis
  proof (cases "?P t \<and> \<not> ?P t'")
    case True
    then obtain a b where ab: "(a, b) \<in> set (daylight h)"
      and lo: "a * msPerDay + 2 * msPerHour \<le> t + standardOffset h"
      and hi: "t + standardOffset h < b * msPerDay + msPerHour"
      by (auto simp add: list_ex_iff)
    from True ab have "\<not> (a * msPerDay + 2 * msPerHour \<le> t' + standardOffset h
                              \<and> t' + standardOffset h < b * msPerDay + msPerHour)"
      by (auto simp add: list_ex_iff)
    with lo assms have after: "b * msPerDay + msPerHour \<le> t' + standardOffset h"
      by linarith
    have "LocalTime h t < (b + 1) * msPerDay"
      using True hi hour by (simp add: LocalTime_saving distrib_right)
    then have "Day (LocalTime h t) \<le> b" by (rule Day_le)
    moreover have "b * msPerDay \<le> LocalTime h t'"
      using True after hour by (simp add: LocalTime_saving)
    then have "b \<le> Day (LocalTime h t')" by (rule Day_ge)
    ultimately show ?thesis by simp
  next
    case False
    with assms hour have "LocalTime h t \<le> LocalTime h t'"
      by (auto simp add: LocalTime_saving)
    then show ?thesis by (rule Day_mono)
  qed
qed

lemma UTC_midnight_mono:
  assumes "k \<le> k'"
  shows "UTC h (k * msPerDay) \<le> UTC h (k' * msPerDay)"
proof (cases "k = k'")
  case True
  then show ?thesis by simp
next
  case False
  with assms have "k + 1 \<le> k'" by simp
  then have "(k + 1) * msPerDay \<le> k' * msPerDay"
    by (simp add: msPerDay_def)
  moreover have "msPerHour \<le> msPerDay" by (simp add: msPerHour_def msPerDay_def)
  moreover have "0 \<le> msPerHour" by (simp add: msPerHour_def)
  ultimately show ?thesis
    using LocalTZA_cases[of h "k * msPerDay" False] LocalTZA_cases[of h "k' * msPerDay" False]
    by (auto simp add: UTC_def distrib_right)
qed

lemma setHours0_mono:
  assumes "t \<le> t'"
  shows "\<exists>m m'. setHours0 h (Num t) = Num m \<and> setHours0 h (Num t') = Num m' \<and> m \<le> m'"
  using UTC_midnight_mono[OF Day_LocalTime_mono[OF assms], of h]
  by (simp add: MakeDate_def MakeTime_def)

lemma calculateWeekNumber_midnights:
  assumes "setHours0 h (Num t) = Num m" and "setHours0 h (newDateOnly epoch) = Num m0"
  shows "calculateWeekNumber h (Num t) epoch = Num (max 1 ((m - m0) div msPerDay div 7 + 1))"
  using assms by (simp add: calculateWeekNumber_def Let_def max_def msPerDay_def)


lemma LocalTime_constant: "daylight h = [] \<Longrightarrow> LocalTime h t = t + standardOffset h"
  by (simp add: LocalTime_def LocalTZA_constant)

lemma UTC_constant: "daylight h = [] \<Longrightarrow> UTC h t = t - standardOffset h"
  by (simp add: UTC_def LocalTZA_constant)

lemma setHours0_constant:
  "daylight h = [] \<Longrightarrow>
   setHours0 h (Num t) = Num (Day (t + standardOffset h) * msPerDay - standardOffset h)"
  by (simp add: LocalTime_constant UTC_constant MakeDate_def MakeTime_def)


lemma diff_of_midnights:
  "(a * msPerDay - z - (b * msPerDay - z)) div msPerDay = a - b"
proof -
  have "a * msPerDay - z - (b * msPerDay - z) = (a - b) * msPerDay"
    by (simp add: left_diff_distrib)
  moreover have "((a - b) * msPerDay) div msPerDay = a - b"
    by (simp add: msPerDay_def)
  ultimately show ?thesis by (simp only:)
qed

lemma calculateWeekNumber_constant:
  assumes "daylight h = []"
  shows "calculateWeekNumber h (Num t) epoch =
           Num (max 1 ((Day (t + standardOffset h)
                         - Day (MakeDate epoch 0 + standardOffset h)) div 7 + 1))"
  using calculateWeekNumber_midnights[of h t _ epoch,
      OF setHours0_constant[OF assms] setHours0_constant[OF assms, of "MakeDate epoch 0",
        folded newDateOnly_def]]
  by (simp only: diff_of_midnights)

text \<open>
  On a host without daylight saving whose zone is UTC or east of it, the week number is
  the civil day of the date minus the epoch date, in whole weeks, plus one, and at least 1.
\<close>

lemma calculateWeekNumber_east_of_utc:
  assumes "daylight h = []" and "0 \<le> standardOffset h" and "standardOffset h < msPerDay"
  shows "calculateWeekNumber h (Num t) epoch =
           Num (max 1 ((Day (LocalTime h t) - epoch) div 7 + 1))"
proof -
  have "epoch \<le> Day (MakeDate epoch 0 + standardOffset h)"
    using assms(2) by (intro Day_ge) (simp add: MakeDate_def)
  moreover have "Day (MakeDate epoch 0 + standardOffset h) \<le> epoch"
    using assms(3) by (intro Day_le) (simp add: MakeDate_def distrib_right)
  ultimately have "Day (MakeDate epoch 0 + standardOffset h) = epoch" by simp
  then show ?thesis
    by (simp add: calculateWeekNumber_constant[OF assms(1)] LocalTime_constant[OF assms(1)])
qed

text \<open>
  C4. The week number of a date is meant to be the whole weeks from the epoch date to the
  civil day of the date, plus one, and at least 1. On a server whose zone is
  America/New_York the code departs from it. For the epoch date 2026-02-06 (day 20490)
  and the instant 2026-02-12T17:00Z, noon of the civil day 20496 and six days after the
  epoch date, the formula gives week 1 and \<open>calculateWeekNumber\<close> returns 2: the epoch
  string is read as UTC midnight, which on this host is 19:00 of the day before, and
  \<open>setHours\<close> takes the local midnight of that day. On a server in UTC the same call
  returns 1.
\<close>

theorem week_number_west_of_utc:
  "calculateWeekNumber newYorkServer (Num 1770915600000) 20490 = Num 2
   \<and> Day (LocalTime newYorkServer 1770915600000) = 20496
   \<and> max 1 ((20496 - 20490) div 7 + 1) = (1::int)
   \<and> calculateWeekNumber winterServer (Num 1770915600000) 20490 = Num 1"
  by code_simp

text \<open>
  C5. For a fixed epoch the week number does not decrease as the date grows, and the
  epoch date itself is in week 1.
\<close>

theorem week_number_monotone:
  "(t \<le> t' \<longrightarrow>
      (\<exists>a b. calculateWeekNumber h (Num t) epoch = Num a
           \<and> calculateWeekNumber h (Num t') epoch = Num b \<and> a \<le> b))
   \<and> calculateWeekNumber h (newDateOnly epoch) epoch = Num 1"
proof (intro conjI impI)
  assume le: "t \<le> t'"
  obtain m0 where m0: "setHours0 h (newDateOnly epoch) = Num m0"
    by (simp add: newDateOnly_def)
  from setHours0_mono[OF le, of h] obtain m m' where
    m: "setHours0 h (Num t) = Num m" and m': "setHours0 h (Num t') = Num m'" and "m \<le> m'"
    by blast
  then have "(m - m0) div msPerDay div 7 \<le> (m' - m0) div msPerDay div 7"
    by (intro zdiv_mono1) (simp_all add: msPerDay_def)
  then have "max 1 ((m - m0) div msPerDay div 7 + 1) \<le> max 1 ((m' - m0) div msPerDay div 7 + 1)"
    by (intro max.mono) simp_all
  then show "\<exists>a b. calculateWeekNumber h (Num t) epoch = Num a
           \<and> calculateWeekNumber h (Num t') epoch = Num b \<and> a \<le> b"
    by (simp only: calculateWeekNumber_midnights[OF m m0]
          calculateWeekNumber_midnights[OF m' m0]) blast
next
  obtain m0 where m0: "setHours0 h (newDateOnly epoch) = Num m0"
    by (simp add: newDateOnly_def)
  from m0 have "setHours0 h (Num (MakeDate epoch 0)) = Num m0"
    by (simp only: newDateOnly_def)
  from calculateWeekNumber_midnights[OF this m0]
  show "calculateWeekNumber h (newDateOnly epoch) epoch = Num 1"
    by (simp add: newDateOnly_def)
qed

theorem week_number_monotone_witness:
  "(1770659400000::int) \<le> 1771200000000
   \<and> calculateWeekNumber winterServer (Num 1770659400000) 20490 = Num 1
   \<and> calculateWeekNumber winterServer (Num 1771200000000) 20490 = Num 2
   \<and> (\<exists>a b. Num 1 = Num a \<and> Num 2 = Num b \<and> a \<le> b)"
proof -
  have le: "(1770659400000::int) \<le> 1771200000000" by simp
  have 1: "calculateWeekNumber winterServer (Num 1770659400000) 20490 = Num 1"
    by code_simp
  have 2: "calculateWeekNumber winterServer (Num 1771200000000) 20490 = Num 2"
    by code_simp
  from week_number_monotone[of 1770659400000 1771200000000 winterServer 20490] le
  have "\<exists>a b. calculateWeekNumber winterServer (Num 1770659400000) 20490 = Num a
           \<and> calculateWeekNumber winterServer (Num 1771200000000) 20490 = Num b \<and> a \<le> b"
    by blast
  then have "\<exists>a b. Num 1 = Num a \<and> Num 2 = Num b \<and> a \<le> b"
    by (simp only: 1 2)
  with le 1 2 show ?thesis by blast
qed




end
